theory Spec2Isabelle
  imports Complex_Main
begin

section \<open>Text primitives\<close>

text \<open>
  Python strings are modelled as \<open>string\<close>, a \<open>char\<close> standing for a code point in
  U+0000..U+00FF. On these, \<open>str.lower()\<close> adds 32 to \<open>A\<close>..\<open>Z\<close> and to the capital
  letters U+00C0..U+00DE (the sign U+00D7 apart) and leaves every other character alone;
  the regex class \<open>\d\<close> is \<open>0\<close>..\<open>9\<close>, and \<open>\s\<close> is U+0009..U+000D, U+001C..U+0020,
  U+0085 and U+00A0.
\<close>

definition lower_char :: "char \<Rightarrow> char" where
  "lower_char c =
     (let n = (of_char c :: nat)
      in if (65 \<le> n \<and> n \<le> 90) \<or> (192 \<le> n \<and> n \<le> 222 \<and> n \<noteq> 215)
         then char_of (n + 32) else c)"

definition lower :: "string \<Rightarrow> string" where
  "lower s = map lower_char s"

text \<open>\<open>starts_with k s\<close>: \<open>s.startswith(k)\<close>.\<close>

fun starts_with :: "string \<Rightarrow> string \<Rightarrow> bool" where
  "starts_with [] s = True"
| "starts_with (k # ks) [] = False"
| "starts_with (k # ks) (c # cs) = (k = c \<and> starts_with ks cs)"

text \<open>\<open>contains k s\<close>: the Python test \<open>k in s\<close> on strings.\<close>

fun contains :: "string \<Rightarrow> string \<Rightarrow> bool" where
  "contains k [] = (k = [])"
| "contains k (c # cs) = (starts_with k (c # cs) \<or> contains k cs)"

section \<open>Category classifier (treasury\_budget\_scraper.py, budget\_scraper.py)\<close>

definition detention_keywords :: "string list" where
  "detention_keywords =
     [''detention'', ''cleveland'', ''west moreton'', ''secure facility'',
      ''custody'', ''remand'', ''secure accommodation'']"

definition community_keywords :: "string list" where
  "community_keywords =
     [''community'', ''diversion'', ''restorative'', ''supervision'',
      ''bail support'', ''family support'', ''early intervention'',
      ''prevention'', ''rehabilitation'', ''reintegration'']"

text \<open>\<open>sum(1 for keyword in kws if keyword in text_lower)\<close>\<close>

definition keyword_score :: "string list \<Rightarrow> string \<Rightarrow> nat" where
  "keyword_score kws text_lower = length (filter (\<lambda>k. contains k text_lower) kws)"

definition detention_score :: "string \<Rightarrow> nat" where
  "detention_score text = keyword_score detention_keywords (lower text)"

definition community_score :: "string \<Rightarrow> nat" where
  "community_score text = keyword_score community_keywords (lower text)"

text \<open>\<open>any(facility in text_lower for facility in ['cleveland', 'west moreton'])\<close>\<close>

definition mentions_facility :: "string \<Rightarrow> bool" where
  "mentions_facility text =
     list_ex (\<lambda>f. contains f (lower text)) [''cleveland'', ''west moreton'']"

text \<open>\<open>TreasuryBudgetScraper._categorize_program\<close>; the result is the Python string.\<close>

definition categorize_program :: "string \<Rightarrow> string" where
  "categorize_program text =
     (if detention_score text > community_score text then ''detention''
      else if community_score text > 0 then ''community''
      else if mentions_facility text then ''detention''
      else ''community'')"

text \<open>
  The category expression of \<open>BudgetScraper.parse_youth_justice_allocations\<close>, applied to
  \<open>str(row)\<close>.
\<close>

definition budget_category :: "string \<Rightarrow> string" where
  "budget_category row_str =
     (if list_ex (\<lambda>w. contains w (lower row_str)) [''detention'', ''cleveland'', ''west moreton'']
      then ''detention'' else ''community'')"


section \<open>Amount normalizer (budget\_scraper.py, treasury\_budget\_scraper.py)\<close>

datatype error = ValueError | DatabaseError

definition is_digit :: "char \<Rightarrow> bool" where
  "is_digit c = (let n = (of_char c :: nat) in 48 \<le> n \<and> n \<le> 57)"

definition is_space :: "char \<Rightarrow> bool" where
  "is_space c =
     (let n = (of_char c :: nat)
      in (9 \<le> n \<and> n \<le> 13) \<or> (28 \<le> n \<and> n \<le> 32) \<or> n = 133 \<or> n = 160)"

text \<open>The character class \<open>[\d,]\<close>.\<close>

definition amount_char :: "char \<Rightarrow> bool" where
  "amount_char c = (is_digit c \<or> c = CHR '','')"

definition digit_value :: "char \<Rightarrow> nat" where
  "digit_value c = of_char c - 48"

definition nat_of_digits :: "string \<Rightarrow> nat" where
  "nat_of_digits ds = foldl (\<lambda>a c. 10 * a + digit_value c) 0 ds"

text \<open>
  \<open>float(s)\<close> on the strings the amount patterns can capture once the commas are gone:
  digits with at most one point. No digit at all raises \<open>ValueError\<close>. The value is the
  exact decimal (a rational); the rounding of binary floating point is not modelled.
\<close>

definition py_float :: "string \<Rightarrow> error + rat" where
  "py_float s =
     (let ip = takeWhile is_digit s; r = dropWhile is_digit s
      in case r of
           [] \<Rightarrow> if ip = [] then Inl ValueError else Inr (of_nat (nat_of_digits ip))
         | c # fp \<Rightarrow>
             if c = CHR ''.'' \<and> list_all is_digit fp \<and> (ip \<noteq> [] \<or> fp \<noteq> [])
             then Inr (of_nat (nat_of_digits ip) + of_nat (nat_of_digits fp) / 10 ^ length fp)
             else Inl ValueError)"

text \<open>\<open>s.replace(',', '')\<close>\<close>

definition remove_commas :: "string \<Rightarrow> string" where
  "remove_commas s = filter (\<lambda>c. c \<noteq> CHR '','') s"

text \<open>
  \<open>(?:\.\d+)?\<close> at the head of \<open>r\<close>: the text it matches and the rest.
\<close>

definition frac_part :: "string \<Rightarrow> string \<times> string" where
  "frac_part r =
     (case r of
        [] \<Rightarrow> ([], r)
      | c # r2 \<Rightarrow>
          if c = CHR ''.'' \<and> r2 \<noteq> [] \<and> is_digit (hd r2)
          then (c # takeWhile is_digit r2, dropWhile is_digit r2)
          else ([], r))"

text \<open>
  The capturing group \<open>([\d,]+(?:\.\d+)?)\<close> at the head of \<open>t\<close>: the captured text and
  the rest. Both quantifiers are greedy and everything after them in the patterns can
  match the empty string, so the longest run is the match.
\<close>

definition number_at :: "string \<Rightarrow> (string \<times> string) option" where
  "number_at t =
     (if t \<noteq> [] \<and> amount_char (hd t)
      then (let (f, r) = frac_part (dropWhile amount_char t)
            in Some (takeWhile amount_char t @ f, r))
      else None)"

text \<open>The first alternative of \<open>a|b|...\<close> that matches at the head of \<open>r\<close>.\<close>

fun first_prefix :: "string list \<Rightarrow> string \<Rightarrow> string option" where
  "first_prefix [] r = None"
| "first_prefix (a # as) r = (if starts_with a r then Some a else first_prefix as r)"

text \<open>\<open>\s*(?:million|m|thousand|k)?\<close> at the head of \<open>r\<close>: the rest after it.\<close>

definition skip_magnitude :: "string \<Rightarrow> string" where
  "skip_magnitude r =
     (let r1 = dropWhile is_space r
      in case first_prefix [''million'', ''m'', ''thousand'', ''k''] r1 of
           Some w \<Rightarrow> drop (length w) r1
         | None \<Rightarrow> r1)"

text \<open>
  One attempt of \<open>amount_pattern = \$?([\d,]+(?:\.\d+)?)\s*(?:million|m|thousand|k)?\<close> at
  the head of \<open>s\<close>: group 1 and the text after the match. \<open>\$?\<close> first takes the
  dollar sign and is retried without it.
\<close>

definition match_amount_at :: "string \<Rightarrow> (string \<times> string) option" where
  "match_amount_at s =
     (case (case s of c # t \<Rightarrow> if c = CHR ''$'' then number_at t else None | [] \<Rightarrow> None) of
        Some (g, r) \<Rightarrow> Some (g, skip_magnitude r)
      | None \<Rightarrow>
          (case number_at s of
             Some (g, r) \<Rightarrow> Some (g, skip_magnitude r)
           | None \<Rightarrow> None))"

text \<open>\<open>re.search(amount_pattern, s)\<close>: group 1 of the leftmost match.\<close>

fun amount_search :: "string \<Rightarrow> string option" where
  "amount_search [] = None"
| "amount_search (c # t) =
     (case match_amount_at (c # t) of
        Some (g, r) \<Rightarrow> Some g
      | None \<Rightarrow> amount_search t)"

text \<open>
  \<open>re.findall(amount_pattern, s)\<close>: group 1 of every match, left to right, each search
  resuming where the previous match ended.
\<close>

function amount_findall :: "string \<Rightarrow> string list" where
  "amount_findall s =
     (case s of
        [] \<Rightarrow> []
      | c # t \<Rightarrow>
          (case match_amount_at s of
             Some (g, r) \<Rightarrow> g # amount_findall r
           | None \<Rightarrow> amount_findall t))"
  by pat_completeness auto
termination
proof (relation "measure length")
  show "wf (measure length)" by simp
next
  fix s :: string and c t x g r
  assume s: "s = c # t" and m: "match_amount_at s = Some x" and x: "(g, r) = x"
  have frac: "length (snd (frac_part u)) \<le> length u" for u
    by (auto simp: frac_part_def split: list.splits intro: le_trans [OF length_dropWhile_le])
  have num: "length r' < length u" if "number_at u = Some (g', r')" for u g' r'
  proof -
    from that have ne: "u \<noteq> []" and h: "amount_char (hd u)"
      and r': "r' = snd (frac_part (dropWhile amount_char u))"
      by (auto simp: number_at_def split: if_splits prod.splits)
    from ne h have "length (dropWhile amount_char u) < length u"
      by (cases u) (auto intro: le_imp_less_Suc length_dropWhile_le)
    with frac [of "dropWhile amount_char u"] r' show ?thesis by simp
  qed
  have skip: "length (skip_magnitude u) \<le> length u" for u
  proof -
    have "length (skip_magnitude u) \<le> length (dropWhile is_space u)"
      by (simp add: skip_magnitude_def Let_def split: option.splits)
    also have "\<dots> \<le> length u" by (rule length_dropWhile_le)
    finally show ?thesis .
  qed
  from m x s obtain u r0 where "number_at u = Some (g, r0)" and "length u \<le> length s"
    and "r = skip_magnitude r0"
    by (auto simp: match_amount_at_def split: option.splits if_splits)
  with num [of u g r0] skip [of r0] have "length r < length s" by simp
  then show "(r, s) \<in> measure length" by simp
next
  fix s :: string and c t
  assume "s = c # t"
  then show "(t, s) \<in> measure length" by simp
qed

declare amount_findall.simps [simp del]

text \<open>
  \<open>BudgetScraper._extract_amount\<close>. The row is given by \<open>[str(v) for v in row.values()]\<close>.
  The first value with a match decides; \<open>None\<close> when no value matches.
\<close>

fun extract_amount :: "string list \<Rightarrow> error + rat option" where
  "extract_amount [] = Inr None"
| "extract_amount (v # vs) =
     (case amount_search v of
        Some g \<Rightarrow>
          (case py_float (remove_commas g) of
             Inl e \<Rightarrow> Inl e
           | Inr amt \<Rightarrow>
               Inr (Some
                 (if contains ''million'' (lower v) \<or> contains ''m'' (lower v)
                  then amt * 1000000
                  else if contains ''thousand'' (lower v) \<or> contains ''k'' (lower v)
                  then amt * 1000
                  else amt)))
      | None \<Rightarrow> extract_amount vs)"

text \<open>
  Python's \<open>max(items, key=key)\<close>: the key of every item is computed (an exception of
  the key function propagates), and the first item with the greatest key is returned.
\<close>

fun max_loop :: "('a \<Rightarrow> error + rat) \<Rightarrow> 'a \<Rightarrow> rat \<Rightarrow> 'a list \<Rightarrow> error + 'a" where
  "max_loop key best bestval [] = Inr best"
| "max_loop key best bestval (x # xs) =
     (case key x of
        Inl e \<Rightarrow> Inl e
      | Inr v \<Rightarrow> if v > bestval then max_loop key x v xs else max_loop key best bestval xs)"

fun py_max :: "('a \<Rightarrow> error + rat) \<Rightarrow> 'a list \<Rightarrow> error + 'a" where
  "py_max key [] = Inl ValueError"
| "py_max key (x # xs) =
     (case key x of
        Inl e \<Rightarrow> Inl e
      | Inr v \<Rightarrow> max_loop key x v xs)"

text \<open>
  The amount computed by \<open>TreasuryBudgetScraper._extract_allocation_from_row\<close> (from
  \<open>amount_pattern\<close> down to the multiplier check): \<open>Inr None\<close> is the early
  \<open>return None\<close>, \<open>Inl\<close> an exception raised by \<open>float\<close>.
\<close>

definition row_amount :: "string \<Rightarrow> error + rat option" where
  "row_amount row_text =
     (let amounts = amount_findall row_text
      in if amounts = [] then Inr None
         else
           (case py_max (\<lambda>x. py_float (remove_commas x)) amounts of
              Inl e \<Rightarrow> Inl e
            | Inr amount_str \<Rightarrow>
                (case py_float (remove_commas amount_str) of
                   Inl e \<Rightarrow> Inl e
                 | Inr amt \<Rightarrow>
                     Inr (Some
                       (if contains ''million'' (lower row_text) \<or> contains '' m'' (lower row_text)
                        then amt * 1000000
                        else if contains ''thousand'' (lower row_text)
                                \<or> contains '' k'' (lower row_text)
                        then amt * 1000
                        else amt)))))"

text \<open>
  The allocation dictionaries of the treasury scraper. The keys read with \<open>alloc.get\<close>
  in \<open>save_to_database\<close> may be absent.
\<close>

record allocation =
  fiscal_year :: string
  program :: string
  category :: string
  amount :: rat
  description :: "string option"
  source_type :: string
  department :: "string option"
  source_url :: "string option"
  source_document :: "string option"

text \<open>
  \<open>TreasuryBudgetScraper._extract_allocation_from_row\<close>. The program name is computed by
  \<open>_extract_program_name\<close>, which no result below depends on; it is the parameter
  \<open>extract_program_name\<close>.
\<close>

definition extract_allocation_from_row ::
  "(string \<Rightarrow> string) \<Rightarrow> string \<Rightarrow> string \<Rightarrow> error + allocation option" where
  "extract_allocation_from_row extract_program_name row_text fy =
     (case row_amount row_text of
        Inl e \<Rightarrow> Inl e
      | Inr None \<Rightarrow> Inr None
      | Inr (Some a) \<Rightarrow>
          Inr (Some \<lparr>fiscal_year = fy,
                     program = extract_program_name row_text,
                     category = categorize_program row_text,
                     amount = a,
                     description = Some (take 500 row_text),
                     source_type = ''budget_table'',
                     department = None,
                     source_url = None,
                     source_document = None\<rparr>))"

definition youth_justice_keywords :: "string list" where
  "youth_justice_keywords =
     [''youth justice'', ''youth detention'', ''juvenile justice'',
      ''cleveland youth detention'', ''west moreton youth detention'',
      ''youth crime'', ''young offender'', ''youth offender'',
      ''community youth justice'', ''youth engagement'',
      ''supervised community accommodation'', ''restorative justice'',
      ''youth bail'', ''youth court'', ''children's court'',
      ''youth rehabilitation'', ''youth diversion'']"

text \<open>
  The row loop of \<open>TreasuryBudgetScraper._process_budget_table\<close> over the row texts of
  the data rows: an exception leaves the loop, is logged, and the allocations collected so
  far are returned.
\<close>

fun process_budget_rows ::
  "(string \<Rightarrow> string) \<Rightarrow> string \<Rightarrow> allocation list \<Rightarrow> string list \<Rightarrow> allocation list" where
  "process_budget_rows pn fy allocations [] = allocations"
| "process_budget_rows pn fy allocations (row_text # rows) =
     (if list_ex (\<lambda>keyword. contains keyword (lower row_text)) youth_justice_keywords
      then
        (case extract_allocation_from_row pn row_text fy of
           Inl e \<Rightarrow> allocations
         | Inr None \<Rightarrow> process_budget_rows pn fy allocations rows
         | Inr (Some allocation) \<Rightarrow> process_budget_rows pn fy (allocations @ [allocation]) rows)
      else process_budget_rows pn fy allocations rows)"

section \<open>Statistic extractor: the dollar-amount scan (parliament\_qon\_scraper.py)\<close>








section \<open>Fiscal aggregator (treasury\_budget\_scraper.py, cost\_analysis.py)\<close>





text \<open>The rows of the table \<open>budget_allocations\<close> (the generated \<open>id\<close> and \<open>scraped_date\<close> apart).\<close>

record budget_allocation =
  row_fiscal_year :: string
  row_department :: string
  row_program :: string
  row_category :: string
  row_amount_col :: rat
  row_description :: string
  row_source_url :: string
  row_source_document :: string


section \<open>Writers (treasury\_budget\_scraper.py, budget\_scraper.py)\<close>

text \<open>
  The SQLAlchemy session is created with \<open>autoflush=False\<close>: \<open>db.add\<close> only queues the
  object, a query reads the rows already in the table, \<open>db.commit()\<close> writes all queued
  objects in one transaction or raises, and \<open>db.rollback()\<close> discards them. Which
  queries and which commits raise is a parameter.
\<close>

record db_faults =
  query_raises :: "allocation \<Rightarrow> bool"
  commit_raises :: "budget_allocation list \<Rightarrow> bool"

text \<open>\<open>db.query(BudgetAllocation).filter_by(fiscal_year=.., program=.., amount=..).first()\<close>\<close>

definition query_first ::
  "budget_allocation list \<Rightarrow> string \<Rightarrow> string \<Rightarrow> rat \<Rightarrow> budget_allocation option" where
  "query_first table fy p a =
     find (\<lambda>r. row_fiscal_year r = fy \<and> row_program r = p \<and> row_amount_col r = a) table"

text \<open>The \<open>BudgetAllocation(...)\<close> built in \<open>TreasuryBudgetScraper.save_to_database\<close>.\<close>

definition db_allocation :: "allocation \<Rightarrow> budget_allocation" where
  "db_allocation alloc =
     \<lparr>row_fiscal_year = fiscal_year alloc,
      row_department = (case department alloc of Some d \<Rightarrow> d | None \<Rightarrow> ''Unknown''),
      row_program = program alloc,
      row_category = category alloc,
      row_amount_col = amount alloc,
      row_description = (case description alloc of Some d \<Rightarrow> d | None \<Rightarrow> []),
      row_source_url = (case source_url alloc of Some u \<Rightarrow> u | None \<Rightarrow> []),
      row_source_document = (case source_document alloc of Some d \<Rightarrow> d | None \<Rightarrow> [])\<rparr>"

text \<open>
  The \<open>for\<close> loop of \<open>TreasuryBudgetScraper.save_to_database\<close>: the queued objects, or
  the exception that left the loop.
\<close>

fun add_new ::
  "db_faults \<Rightarrow> budget_allocation list \<Rightarrow> budget_allocation list \<Rightarrow> allocation list
     \<Rightarrow> error + budget_allocation list" where
  "add_new F table queued [] = Inr queued"
| "add_new F table queued (alloc # allocations) =
     (if query_raises F alloc then Inl DatabaseError
      else
        (case query_first table (fiscal_year alloc) (program alloc) (amount alloc) of
           None \<Rightarrow> add_new F table (queued @ [db_allocation alloc]) allocations
         | Some existing \<Rightarrow> add_new F table queued allocations))"

text \<open>
  \<open>TreasuryBudgetScraper.save_to_database\<close>: the table after the call. The exception
  handler logs and rolls back.
\<close>

definition save_to_database ::
  "db_faults \<Rightarrow> budget_allocation list \<Rightarrow> allocation list \<Rightarrow> budget_allocation list" where
  "save_to_database F table allocations =
     (case add_new F table [] allocations of
        Inl e \<Rightarrow> table
      | Inr queued \<Rightarrow> if commit_raises F queued then table else table @ queued)"

text \<open>
  \<open>BudgetScraper.save_to_database\<close> writes to two stores: the SQL table, in one
  transaction, and then, when a Supabase client is configured, the Supabase table, one
  \<open>insert_budget_allocation\<close> per allocation; that method catches its own exceptions, so
  a failed insert is skipped. The allocations are those built by
  \<open>parse_youth_justice_allocations\<close>, which carry exactly the columns of a row.
\<close>

record stores =
  sql_table :: "budget_allocation list"
  supabase_table :: "budget_allocation list option"

definition budget_save_to_database ::
  "db_faults \<Rightarrow> (budget_allocation \<Rightarrow> bool) \<Rightarrow> stores \<Rightarrow> budget_allocation list \<Rightarrow> stores" where
  "budget_save_to_database F insert_raises S allocations =
     \<lparr>sql_table =
        (if commit_raises F allocations then sql_table S else sql_table S @ allocations),
      supabase_table =
        (case supabase_table S of
           None \<Rightarrow> None
         | Some rows \<Rightarrow> Some (rows @ filter (\<lambda>a. \<not> insert_raises a) allocations))\<rparr>"

section \<open>Auxiliary notions for the results\<close>


text \<open>
  The rows \<open>TreasuryBudgetScraper.save_to_database\<close> builds for the allocations whose
  key \<open>(fiscal_year, program, amount)\<close> no row of the table has.
\<close>

definition new_rows :: "budget_allocation list \<Rightarrow> allocation list \<Rightarrow> budget_allocation list" where
  "new_rows table allocations =
     map db_allocation
       (filter (\<lambda>a. query_first table (fiscal_year a) (program a) (amount a) = None) allocations)"

text \<open>A database on which no query and no commit raises.\<close>

definition no_faults :: db_faults where
  "no_faults = \<lparr>query_raises = (\<lambda>a. False), commit_raises = (\<lambda>rows. False)\<rparr>"

text \<open>Test data: the allocation of a table row with the given category and amount.\<close>

definition example_allocation :: "string \<Rightarrow> rat \<Rightarrow> allocation" where
  "example_allocation c a =
     \<lparr>fiscal_year = ''2024-25'',
      program = ''Youth justice services'',
      category = c,
      amount = a,
      description = Some ''Youth justice services'',
      source_type = ''budget_table'',
      department = None,
      source_url = None,
      source_document = None\<rparr>"

section \<open>Classifier results\<close>



text \<open>
  C1 (as stated). With no keyword and no facility name the classifier is claimed to return
  \<open>unknown\<close>. On the text below there is no signal at all, and the result is not
  \<open>unknown\<close>.
\<close>

theorem categorize_no_signal_counterexample:
  "detention_score ''youth justice funding'' \<le> community_score ''youth justice funding''
   \<and> community_score ''youth justice funding'' = 0
   \<and> \<not> mentions_facility ''youth justice funding''
   \<and> categorize_program ''youth justice funding'' \<noteq> ''unknown''"
  by code_simp

lemma keyword_score_zero:
  "keyword_score kws t = 0 \<Longrightarrow> k \<in> set kws \<Longrightarrow> \<not> contains k t"
  by (auto simp: keyword_score_def filter_empty_conv)

text \<open>
  C1 (amended). For every text in which the detention-keyword count is not greater than
  the community-keyword count, the community-keyword count is zero and no detention
  facility name occurs, both classifiers of the code return \<open>community\<close>: the final
  \<open>else\<close> of \<open>_categorize_program\<close> and the \<open>else\<close> of the conditional expression in
  \<open>parse_youth_justice_allocations\<close>.
\<close>

theorem categorize_no_signal_is_community:
  assumes "detention_score text \<le> community_score text"
    and "community_score text = 0"
    and "\<not> mentions_facility text"
  shows "categorize_program text = ''community'' \<and> budget_category text = ''community''"
proof -
  from assms have d0: "keyword_score detention_keywords (lower text) = 0"
    by (simp add: detention_score_def)
  have "\<not> contains ''detention'' (lower text)"
    by (rule keyword_score_zero [OF d0]) (simp add: detention_keywords_def)
  moreover have "\<not> contains ''cleveland'' (lower text)"
    by (rule keyword_score_zero [OF d0]) (simp add: detention_keywords_def)
  moreover have "\<not> contains ''west moreton'' (lower text)"
    by (rule keyword_score_zero [OF d0]) (simp add: detention_keywords_def)
  ultimately have "budget_category text = ''community''"
    by (simp add: budget_category_def)
  moreover from assms have "categorize_program text = ''community''"
    by (simp add: categorize_program_def)
  ultimately show ?thesis by simp
qed

theorem categorize_no_signal_is_community_witness:
  "detention_score ''youth justice funding'' \<le> community_score ''youth justice funding''
   \<and> community_score ''youth justice funding'' = 0
   \<and> \<not> mentions_facility ''youth justice funding''
   \<and> categorize_program ''youth justice funding'' = ''community''
   \<and> budget_category ''youth justice funding'' = ''community''"
proof -
  have a: "detention_score ''youth justice funding'' \<le> community_score ''youth justice funding''"
    by code_simp
  have b: "community_score ''youth justice funding'' = 0"
    by code_simp
  have c: "\<not> mentions_facility ''youth justice funding''"
    by code_simp
  from categorize_no_signal_is_community [OF a b c] a b c show ?thesis by simp
qed

section \<open>Amount normalizer results\<close>

lemma amount_examples:
  "row_amount ''$1.65 million'' = Inr (Some 1650000)"
  "row_amount ''450'' = Inr (Some 450)"
  "extract_amount [''$1.65 million''] = Inr (Some 1650000)"
  "extract_amount [''450''] = Inr (Some 450)"
  by code_simp+

text \<open>
  C3. The multiplier is claimed to depend on the magnitude word that follows the numeric
  token. The code tests the whole lower-cased text instead: in \<open>450 per month\<close> no
  magnitude word follows \<open>450\<close>, yet \<open>' m'\<close> (treasury scraper) and \<open>'m'\<close> (budget
  scraper) occur in the text and the amount is multiplied by \<open>10^6\<close>; in \<open>$5m\<close> the token
  is followed by \<open>m\<close>, and the treasury scraper, which looks for \<open>' m'\<close>, leaves it at 5.
\<close>

theorem multiplier_from_whole_text:
  "amount_findall ''450 per month'' = [''450'']
   \<and> row_amount ''450 per month'' = Inr (Some 450000000)
   \<and> extract_amount [''450 per month''] = Inr (Some 450000000)
   \<and> row_amount ''$5m'' = Inr (Some 5)"
  by code_simp

text \<open>
  C5. The largest normalized value is claimed to be returned. The code takes the token with
  the largest mantissa and then applies the multiplier found in the whole text: for
  \<open>$900 thousand and $2 million\<close> the tokens are 900 and 2, and the result is
  900 times \<open>10^6\<close>, not the largest normalized value 2000000.
\<close>

theorem largest_mantissa_scaled_by_text:
  "amount_findall ''$900 thousand and $2 million'' = [''900'', ''2'']
   \<and> row_amount ''$900 thousand and $2 million'' = Inr (Some 900000000)"
  by code_simp

lemma no_amount_char_no_match:
  "\<not> list_ex amount_char s \<Longrightarrow> amount_findall s = []"
proof (induction s)
  case Nil
  show ?case by (simp add: amount_findall.simps [of "[]"])
next
  case (Cons c t)
  then have c: "\<not> amount_char c" and t: "\<not> list_ex amount_char t" by simp_all
  from t have nt: "number_at t = None"
    by (cases t) (simp_all add: number_at_def)
  from c have nc: "number_at (c # t) = None"
    by (simp add: number_at_def)
  from nt nc have "match_amount_at (c # t) = None"
    by (cases "c = CHR ''$''") (simp_all add: match_amount_at_def)
  with Cons.IH [OF t] show ?case
    by (simp add: amount_findall.simps [of "c # t"])
qed

lemma no_amount_char_dropped:
  "\<not> list_ex amount_char row_text \<Longrightarrow> extract_allocation_from_row pn row_text fy = Inr None"
  by (simp add: extract_allocation_from_row_def row_amount_def no_amount_char_no_match)

text \<open>
  C8. A text without a parseable numeric token is claimed to give "no amount" and to be
  dropped. That is what happens when the text has neither a digit nor a comma
  (\<open>no_amount_char_dropped\<close>). A comma alone, however, matches \<open>[\d,]+\<close>: the token is
  \<open>,\<close>, \<open>float('')\<close> raises \<open>ValueError\<close>, and in \<open>_process_budget_table\<close> the exception
  ends the row loop, so the rows after it are lost as well.
\<close>

theorem comma_only_token_raises:
  "amount_findall ''Youth justice services, Cleveland'' = ['','']
   \<and> extract_allocation_from_row pn ''Youth justice services, Cleveland'' fy = Inl ValueError
   \<and> extract_amount [''Youth justice services, Cleveland''] = Inl ValueError
   \<and> process_budget_rows pn fy []
        [''Youth justice services, Cleveland'', ''Youth detention $5 million''] = []"
proof -
  have f: "amount_findall ''Youth justice services, Cleveland'' = ['','']"
    by code_simp
  have r: "row_amount ''Youth justice services, Cleveland'' = Inl ValueError"
    by code_simp
  have e: "extract_amount [''Youth justice services, Cleveland''] = Inl ValueError"
    by code_simp
  have k: "list_ex (\<lambda>keyword. contains keyword (lower ''Youth justice services, Cleveland''))
             youth_justice_keywords"
    by code_simp
  from r have x: "extract_allocation_from_row pn ''Youth justice services, Cleveland'' fy
      = Inl ValueError"
    by (simp add: extract_allocation_from_row_def)
  from k x have "process_budget_rows pn fy []
      [''Youth justice services, Cleveland'', ''Youth detention $5 million''] = []"
    by (simp del: contains.simps)
  with f x e show ?thesis by simp
qed

section \<open>Statistic extractor results\<close>


lemma starts_with_append: "starts_with k (k @ b)"
  by (induction k) simp_all












lemma py_max_single: "key g = Inr a \<Longrightarrow> py_max key [g] = Inr g"
  by simp









section \<open>Writer results\<close>

lemma add_new_eq:
  "add_new F table queued allocations =
     (if list_ex (query_raises F) allocations then Inl DatabaseError
      else Inr (queued @ new_rows table allocations))"
  by (induction allocations arbitrary: queued) (auto simp: new_rows_def split: option.splits)

lemma save_to_database_eq:
  "save_to_database F table allocations =
     (if list_ex (query_raises F) allocations \<or> commit_raises F (new_rows table allocations)
      then table else table @ new_rows table allocations)"
  by (simp add: save_to_database_def add_new_eq)

lemma new_rows_after_save:
  "new_rows (table @ new_rows table allocations) allocations = []"
proof -
  have "query_first (table @ new_rows table allocations) (fiscal_year a) (program a) (amount a) \<noteq> None"
    if "a \<in> set allocations" for a
  proof (cases "query_first table (fiscal_year a) (program a) (amount a)")
    case None
    with that have "db_allocation a \<in> set (new_rows table allocations)"
      by (simp add: new_rows_def)
    then have "\<exists>x\<in>set (table @ new_rows table allocations).
        row_fiscal_year x = fiscal_year a \<and> row_program x = program a \<and> row_amount_col x = amount a"
      by (intro bexI [of _ "db_allocation a"]) (simp_all add: db_allocation_def)
    then show ?thesis
      unfolding query_first_def find_None_iff by blast
  next
    case (Some r)
    then have "find (\<lambda>r. row_fiscal_year r = fiscal_year a \<and> row_program r = program a
        \<and> row_amount_col r = amount a) table \<noteq> None"
      by (simp add: query_first_def)
    then show ?thesis
      unfolding query_first_def find_None_iff by auto
  qed
  then show ?thesis
    by (simp add: new_rows_def filter_empty_conv)
qed

lemma treasury_save_idempotent:
  assumes "\<not> list_ex (query_raises F) allocations"
    and "\<not> commit_raises F (new_rows table allocations)"
  shows "save_to_database F' (save_to_database F table allocations) allocations
           = save_to_database F table allocations"
  using assms by (simp add: save_to_database_eq new_rows_after_save)



text \<open>
  C2. A second run over the same allocations is claimed to leave the number of stored rows
  unchanged. \<open>TreasuryBudgetScraper.save_to_database\<close> does so (\<open>treasury_save_idempotent\<close>).
  \<open>BudgetScraper.save_to_database\<close> has no key check: saving the same allocation twice
  stores two rows with the same key.
\<close>

theorem budget_save_twice_duplicates:
  "sql_table (budget_save_to_database no_faults insert_raises
      \<lparr>sql_table = [], supabase_table = None\<rparr> [db_allocation (example_allocation ''detention'' 100)])
     = [db_allocation (example_allocation ''detention'' 100)]
   \<and> sql_table (budget_save_to_database no_faults insert_raises
      (budget_save_to_database no_faults insert_raises
         \<lparr>sql_table = [], supabase_table = None\<rparr> [db_allocation (example_allocation ''detention'' 100)])
       [db_allocation (example_allocation ''detention'' 100)])
     = [db_allocation (example_allocation ''detention'' 100),
        db_allocation (example_allocation ''detention'' 100)]"
  by (simp add: budget_save_to_database_def no_faults_def)

section \<open>Fiscal aggregator results\<close>





end
